theory Spec2Isabelle
  imports Main "HOL-Library.Char_ord" "HOL-Library.List_Lexorder" "HOL-Library.Product_Lexorder"
    "HOL-Library.Multiset"
begin

section \<open>Values of the Todo service\<close>

text \<open>
  The service of \<^verbatim>\<open>main.py\<close> moves Python values between HTTP requests and the documents
  of one MongoDB collection. The values that occur are \<^verbatim>\<open>None\<close>, booleans, strings,
  datetimes and object identifiers.

  An \<^verbatim>\<open>ObjectId\<close> is twelve bytes; it is kept here as its canonical text, the 24 lower-case
  hexadecimal digits that \<^verbatim>\<open>str(oid)\<close> prints. A datetime is kept by its fields
  (year, month, day, hour, minute, second, microsecond), without zone, the form in which the
  store returns it.
\<close>

datatype ObjectId = Oid string

datatype datetime = Datetime nat nat nat nat nat nat nat

datatype pyval =
    VNone
  | VBool bool
  | VStr string
  | VDatetime datetime
  | VObjectId ObjectId

text \<open>A document, and any other Python \<^verbatim>\<open>dict\<close> with string keys.\<close>

type_synonym doc = "string \<rightharpoonup> pyval"

text \<open>
  Exceptions carry the text that \<^verbatim>\<open>str(e)\<close> prints. A handler ends either by raising
  \<^verbatim>\<open>HTTPException(status_code, detail)\<close> or with an exception nobody caught, which the
  framework answers with status 500.
\<close>

datatype py_exn =
    TypeError string
  | AttributeError string
  | InvalidId string
  | PyMongoError string
  | Exception string

datatype failure =
    HTTPException nat string
  | Unhandled py_exn

fun str_exn :: "py_exn \<Rightarrow> string" where
  "str_exn (TypeError m) = m"
| "str_exn (AttributeError m) = m"
| "str_exn (InvalidId m) = m"
| "str_exn (PyMongoError m) = m"
| "str_exn (Exception m) = m"

text \<open>A text between single quotes, as Python's messages name types and values.\<close>

definition quoted :: "string \<Rightarrow> string" where
  "quoted s = CHR 0x27 # s @ [CHR 0x27]"

subsection \<open>Object identifiers\<close>

definition is_hex :: "char \<Rightarrow> bool" where
  "is_hex c = (c \<in> set ''0123456789abcdefABCDEF'')"

definition is_lower_hex :: "char \<Rightarrow> bool" where
  "is_lower_hex c = (c \<in> set ''0123456789abcdef'')"

definition lower_hex :: "char \<Rightarrow> char" where
  "lower_hex c =
     (if c = CHR ''A'' then CHR ''a'' else if c = CHR ''B'' then CHR ''b''
      else if c = CHR ''C'' then CHR ''c'' else if c = CHR ''D'' then CHR ''d''
      else if c = CHR ''E'' then CHR ''e'' else if c = CHR ''F'' then CHR ''f''
      else c)"

text \<open>
  \<^verbatim>\<open>ObjectId(todo_id)\<close> for a string argument: the string must be 24 hexadecimal digits,
  otherwise \<^verbatim>\<open>InvalidId\<close> is raised. Upper-case and lower-case digits name the same bytes.
\<close>

definition ObjectId :: "string \<Rightarrow> py_exn + ObjectId" where
  "ObjectId s =
     (if length s = 24 \<and> list_all is_hex s then Inr (Oid (map lower_hex s))
      else Inl (InvalidId (quoted s @
        '' is not a valid ObjectId, it must be a 12-byte input or a 24-character hex string'')))"

fun ObjectId_str :: "ObjectId \<Rightarrow> string" where
  "ObjectId_str (Oid h) = h"

text \<open>The identifiers the driver generates: twelve bytes, printed as 24 lower-case digits.\<close>

fun wf_ObjectId :: "ObjectId \<Rightarrow> bool" where
  "wf_ObjectId (Oid h) = (length h = 24 \<and> list_all is_lower_hex h)"

subsection \<open>Python's \<^verbatim>\<open>str\<close>, \<^verbatim>\<open>bool\<close>, \<^verbatim>\<open><\<close> and \<^verbatim>\<open>dict.get\<close>\<close>

fun digit_char :: "nat \<Rightarrow> char" where
  "digit_char n = char_of (48 + n mod 10)"

fun zero_padded :: "nat \<Rightarrow> nat \<Rightarrow> string" where
  "zero_padded 0 n = []"
| "zero_padded (Suc w) n = zero_padded w (n div 10) @ [digit_char n]"

fun datetime_str :: "datetime \<Rightarrow> string" where
  "datetime_str (Datetime y mo d h mi s us) =
     zero_padded 4 y @ ''-'' @ zero_padded 2 mo @ ''-'' @ zero_padded 2 d @ '' '' @
     zero_padded 2 h @ '':'' @ zero_padded 2 mi @ '':'' @ zero_padded 2 s @
     (if us = 0 then [] else ''.'' @ zero_padded 6 us)"

fun py_str :: "pyval \<Rightarrow> string" where
  "py_str VNone = ''None''"
| "py_str (VBool b) = (if b then ''True'' else ''False'')"
| "py_str (VStr s) = s"
| "py_str (VDatetime t) = datetime_str t"
| "py_str (VObjectId oid) = ObjectId_str oid"

fun py_bool :: "pyval \<Rightarrow> bool" where
  "py_bool VNone = False"
| "py_bool (VBool b) = b"
| "py_bool (VStr s) = (s \<noteq> [])"
| "py_bool (VDatetime t) = True"
| "py_bool (VObjectId oid) = True"

fun type_name :: "pyval \<Rightarrow> string" where
  "type_name VNone = ''NoneType''"
| "type_name (VBool b) = ''bool''"
| "type_name (VStr s) = ''str''"
| "type_name (VDatetime t) = ''datetime.datetime''"
| "type_name (VObjectId oid) = ''ObjectId''"

fun datetime_key :: "datetime \<Rightarrow> nat \<times> nat \<times> nat \<times> nat \<times> nat \<times> nat \<times> nat" where
  "datetime_key (Datetime y mo d h mi s us) = (y, mo, d, h, mi, s, us)"

text \<open>
  \<^verbatim>\<open>a < b\<close>: defined between two values of the same kind, a \<^verbatim>\<open>TypeError\<close> otherwise; in
  particular \<^verbatim>\<open>None\<close> is not comparable with anything, itself included.
\<close>

fun py_lt :: "pyval \<Rightarrow> pyval \<Rightarrow> py_exn + bool" where
  "py_lt (VBool a) (VBool b) = Inr (a < b)"
| "py_lt (VStr a) (VStr b) = Inr (a < b)"
| "py_lt (VDatetime a) (VDatetime b) = Inr (datetime_key a < datetime_key b)"
| "py_lt (VObjectId a) (VObjectId b) = Inr (ObjectId_str a < ObjectId_str b)"
| "py_lt a b = Inl (TypeError (quoted ''<'' @ '' not supported between instances of '' @
     quoted (type_name a) @ '' and '' @ quoted (type_name b)))"

text \<open>\<^verbatim>\<open>d.get(k)\<close> and \<^verbatim>\<open>d.get(k, default)\<close>.\<close>

definition py_get :: "doc \<Rightarrow> string \<Rightarrow> pyval" where
  "py_get d k = (case d k of None \<Rightarrow> VNone | Some v \<Rightarrow> v)"

definition py_get_default :: "doc \<Rightarrow> string \<Rightarrow> pyval \<Rightarrow> pyval" where
  "py_get_default d k dflt = (case d k of None \<Rightarrow> dflt | Some v \<Rightarrow> v)"

section \<open>The document store\<close>

text \<open>
  \<^verbatim>\<open>db\<close> is the process-wide handle of \<^verbatim>\<open>database.py\<close>: \<^verbatim>\<open>None\<close>, or a pymongo
  \<^verbatim>\<open>Database\<close>. Of the database the model keeps its name, the names of its collections,
  the documents of \<^verbatim>\<open>db["todo"]\<close> in their natural order, and whether the server can be
  reached: when it cannot, every operation raises an error with the given text.
\<close>

record Database =
  name :: string
  unreachable :: "string option"
  collection_names :: "string list"
  todo :: "doc list"

definition server :: "Database \<Rightarrow> 'a \<Rightarrow> py_exn + 'a" where
  "server d x = (case unreachable d of Some m \<Rightarrow> Inl (PyMongoError m) | None \<Rightarrow> Inr x)"

text \<open>\<^verbatim>\<open>db["todo"]\<close>: subscripting \<^verbatim>\<open>None\<close> raises.\<close>

definition db_todo :: "Database option \<Rightarrow> py_exn + Database" where
  "db_todo db =
     (case db of
        None \<Rightarrow> Inl (TypeError (quoted ''NoneType'' @ '' object is not subscriptable''))
      | Some d \<Rightarrow> Inr d)"

text \<open>\<^verbatim>\<open>find_one({"_id": oid})\<close>: the first document with that identifier, or \<^verbatim>\<open>None\<close>.\<close>

fun find_doc :: "doc list \<Rightarrow> ObjectId \<Rightarrow> doc option" where
  "find_doc [] oid = None"
| "find_doc (d # ds) oid =
     (if d ''_id'' = Some (VObjectId oid) then Some d else find_doc ds oid)"

definition find_one :: "Database \<Rightarrow> ObjectId \<Rightarrow> py_exn + doc option" where
  "find_one d oid = server d (find_doc (todo d) oid)"

text \<open>
  \<^verbatim>\<open>update_one({"_id": oid}, {"$set": fields})\<close>: the fields are written into the first
  matching document, every other key of it stays; the result is \<^verbatim>\<open>matched_count\<close>.
\<close>

fun set_fields :: "doc \<Rightarrow> (string \<times> pyval) list \<Rightarrow> doc" where
  "set_fields d [] = d"
| "set_fields d ((k, v) # kvs) = set_fields (d(k \<mapsto> v)) kvs"

fun update_doc :: "doc list \<Rightarrow> ObjectId \<Rightarrow> (string \<times> pyval) list \<Rightarrow> nat \<times> doc list" where
  "update_doc [] oid kvs = (0, [])"
| "update_doc (d # ds) oid kvs =
     (if d ''_id'' = Some (VObjectId oid) then (1, set_fields d kvs # ds)
      else (case update_doc ds oid kvs of (n, ds') \<Rightarrow> (n, d # ds')))"

definition update_one ::
  "Database \<Rightarrow> ObjectId \<Rightarrow> (string \<times> pyval) list \<Rightarrow> py_exn + nat \<times> Database" where
  "update_one d oid kvs =
     server d (case update_doc (todo d) oid kvs of (n, ds) \<Rightarrow> (n, d\<lparr>todo := ds\<rparr>))"

text \<open>\<^verbatim>\<open>delete_one({"_id": oid})\<close>: removes the first matching document; \<^verbatim>\<open>deleted_count\<close>.\<close>

fun delete_doc :: "doc list \<Rightarrow> ObjectId \<Rightarrow> nat \<times> doc list" where
  "delete_doc [] oid = (0, [])"
| "delete_doc (d # ds) oid =
     (if d ''_id'' = Some (VObjectId oid) then (1, ds)
      else (case delete_doc ds oid of (n, ds') \<Rightarrow> (n, d # ds')))"

definition delete_one :: "Database \<Rightarrow> ObjectId \<Rightarrow> py_exn + nat \<times> Database" where
  "delete_one d oid =
     server d (case delete_doc (todo d) oid of (n, ds) \<Rightarrow> (n, d\<lparr>todo := ds\<rparr>))"

text \<open>
  \<^verbatim>\<open>insert_one(document)\<close> for a document without \<^verbatim>\<open>_id\<close>: the driver generates the
  identifier \<open>new_id\<close>; the server refuses an identifier that is already in the collection
  (its message is abbreviated here). The first insertion creates the collection.
\<close>

definition insert_one :: "Database \<Rightarrow> ObjectId \<Rightarrow> doc \<Rightarrow> py_exn + ObjectId \<times> Database" where
  "insert_one d new_id document =
     (case unreachable d of
        Some m \<Rightarrow> Inl (PyMongoError m)
      | None \<Rightarrow>
          (case find_doc (todo d) new_id of
             Some _ \<Rightarrow> Inl (PyMongoError ''E11000 duplicate key error'')
           | None \<Rightarrow>
               Inr (new_id,
                 d\<lparr>todo := todo d @ [document(''_id'' \<mapsto> VObjectId new_id)],
                   collection_names :=
                     (if ''todo'' \<in> set (collection_names d) then collection_names d
                      else collection_names d @ [''todo''])\<rparr>)))"

definition list_collection_names :: "Database \<Rightarrow> py_exn + string list" where
  "list_collection_names d = server d (collection_names d)"

section \<open>The handlers of \<^verbatim>\<open>main.py\<close>\<close>

subsection \<open>Request models\<close>

text \<open>
  \<^verbatim>\<open>TodoCreate\<close> has one required string field. \<^verbatim>\<open>TodoUpdate\<close> has two optional fields;
  for each the model remembers whether the request supplied it (\<^verbatim>\<open>exclude_unset\<close> asks
  for exactly that) and, if so, the value, which may be \<^verbatim>\<open>null\<close>.
\<close>

datatype TodoCreate = TodoCreate string

datatype 'a supplied = Unset | Supplied "'a option"

datatype TodoUpdate = TodoUpdate "string supplied" "bool supplied"

text \<open>
  Validation of a JSON body against \<^verbatim>\<open>TodoCreate\<close>: \<^verbatim>\<open>title\<close> must be there and be a
  string. \<open>None\<close> is the validation error, which the framework answers before the handler
  runs.
\<close>

definition TodoCreate_validate :: "doc \<Rightarrow> TodoCreate option" where
  "TodoCreate_validate request =
     (case request ''title'' of Some (VStr s) \<Rightarrow> Some (TodoCreate s) | _ \<Rightarrow> None)"

text \<open>\<^verbatim>\<open>payload.model_dump(exclude_unset=True)\<close>, in the order of the declared fields.\<close>

fun model_dump_exclude_unset :: "TodoUpdate \<Rightarrow> (string \<times> pyval) list" where
  "model_dump_exclude_unset (TodoUpdate t c) =
     (case t of Unset \<Rightarrow> []
      | Supplied v \<Rightarrow> [(''title'', case v of None \<Rightarrow> VNone | Some s \<Rightarrow> VStr s)]) @
     (case c of Unset \<Rightarrow> []
      | Supplied v \<Rightarrow> [(''completed'', case v of None \<Rightarrow> VNone | Some b \<Rightarrow> VBool b)])"

subsection \<open>\<^verbatim>\<open>serialize_todo\<close>\<close>

definition serialize_todo :: "doc \<Rightarrow> doc" where
  "serialize_todo d =
     [''id'' \<mapsto> VStr (py_str (py_get d ''_id'')),
      ''title'' \<mapsto> py_get_default d ''title'' (VStr []),
      ''completed'' \<mapsto> VBool (py_bool (py_get_default d ''completed'' (VBool False))),
      ''created_at'' \<mapsto> py_get d ''created_at'',
      ''updated_at'' \<mapsto> py_get d ''updated_at'']"

text \<open>
  \<^verbatim>\<open>serialize_todo(doc)\<close> where \<^verbatim>\<open>doc\<close> is what \<^verbatim>\<open>find_one\<close> returned: on \<^verbatim>\<open>None\<close> the
  first \<^verbatim>\<open>doc.get\<close> raises.
\<close>

definition serialize_found :: "doc option \<Rightarrow> py_exn + doc" where
  "serialize_found r =
     (case r of
        None \<Rightarrow>
          Inl (AttributeError (quoted ''NoneType'' @ '' object has no attribute '' @ quoted ''get''))
      | Some d \<Rightarrow> Inr (serialize_todo d))"

subsection \<open>\<^verbatim>\<open>update_todo\<close> and \<^verbatim>\<open>delete_todo\<close>\<close>

text \<open>
  The dict comprehension of \<^verbatim>\<open>update_todo\<close>: the supplied fields whose value is not
  \<^verbatim>\<open>None\<close>.
\<close>

definition update_fields :: "TodoUpdate \<Rightarrow> (string \<times> pyval) list" where
  "update_fields payload = filter (\<lambda>(k, v). v \<noteq> VNone) (model_dump_exclude_unset payload)"

text \<open>
  A handler that writes takes the handle and returns it with the result. \<open>now\<close> is the
  reading of the clock, \<^verbatim>\<open>datetime.now(timezone.utc)\<close>.
\<close>

definition update_todo ::
  "datetime \<Rightarrow> Database option \<Rightarrow> string \<Rightarrow> TodoUpdate \<Rightarrow> (failure + doc) \<times> Database option" where
  "update_todo now db todo_id payload =
     (case ObjectId todo_id of
        Inl e \<Rightarrow> (Inl (HTTPException 400 ''Invalid ID''), db)
      | Inr oid \<Rightarrow>
          if update_fields payload = [] then (Inl (HTTPException 400 ''No fields to update''), db)
          else
            (case db_todo db of
               Inl e \<Rightarrow> (Inl (Unhandled e), db)
             | Inr d \<Rightarrow>
                 (case update_one d oid (update_fields payload @ [(''updated_at'', VDatetime now)]) of
                    Inl e \<Rightarrow> (Inl (Unhandled e), db)
                  | Inr (matched_count, d') \<Rightarrow>
                      if matched_count = 0 then (Inl (HTTPException 404 ''Todo not found''), Some d')
                      else
                        (case find_one d' oid of
                           Inl e \<Rightarrow> (Inl (Unhandled e), Some d')
                         | Inr found \<Rightarrow>
                             (case serialize_found found of
                                Inl e \<Rightarrow> (Inl (Unhandled e), Some d')
                              | Inr out \<Rightarrow> (Inr out, Some d'))))))"

definition delete_todo ::
  "Database option \<Rightarrow> string \<Rightarrow> (failure + doc) \<times> Database option" where
  "delete_todo db todo_id =
     (case ObjectId todo_id of
        Inl e \<Rightarrow> (Inl (HTTPException 400 ''Invalid ID''), db)
      | Inr oid \<Rightarrow>
          (case db_todo db of
             Inl e \<Rightarrow> (Inl (Unhandled e), db)
           | Inr d \<Rightarrow>
               (case delete_one d oid of
                  Inl e \<Rightarrow> (Inl (Unhandled e), db)
                | Inr (deleted_count, d') \<Rightarrow>
                    if deleted_count = 0 then (Inl (HTTPException 404 ''Todo not found''), Some d')
                    else (Inr [''ok'' \<mapsto> VBool True], Some d'))))"

subsection \<open>\<^verbatim>\<open>list_todos\<close>\<close>

text \<open>
  \<^verbatim>\<open>docs.sort(key=..., reverse=True)\<close>. The keys are computed first; the sort is stable, so
  with \<^verbatim>\<open>reverse=True\<close> the result is in descending order of the keys and documents with
  equal keys keep their order. Every comparison is \<^verbatim>\<open>key(a) < key(b)\<close>, and one that
  raises ends the sort with its exception. The sort is written as an insertion from the
  right. On two documents it makes the comparison that the interpreter makes; on longer
  lists the interpreter may meet another pair first, but it raises exactly when the
  insertion does, and returns the same list when neither raises.
\<close>

fun insort_reverse :: "(pyval \<times> doc) \<Rightarrow> (pyval \<times> doc) list \<Rightarrow> py_exn + (pyval \<times> doc) list" where
  "insort_reverse x [] = Inr [x]"
| "insort_reverse x (y # ys) =
     (case py_lt (fst x) (fst y) of
        Inl e \<Rightarrow> Inl e
      | Inr lt \<Rightarrow>
          if lt then (case insort_reverse x ys of Inl e \<Rightarrow> Inl e | Inr zs \<Rightarrow> Inr (y # zs))
          else Inr (x # y # ys))"

fun sort_reverse :: "(pyval \<times> doc) list \<Rightarrow> py_exn + (pyval \<times> doc) list" where
  "sort_reverse [] = Inr []"
| "sort_reverse (x # xs) =
     (case sort_reverse xs of Inl e \<Rightarrow> Inl e | Inr ys \<Rightarrow> insort_reverse x ys)"

definition list_sort_reverse :: "(doc \<Rightarrow> pyval) \<Rightarrow> doc list \<Rightarrow> py_exn + doc list" where
  "list_sort_reverse key docs =
     (case sort_reverse (map (\<lambda>d. (key d, d)) docs) of
        Inl e \<Rightarrow> Inl e
      | Inr ps \<Rightarrow> Inr (map snd ps))"

text \<open>
  Modelled from the spec: \<^verbatim>\<open>get_documents\<close> of \<^verbatim>\<open>database.py\<close>, which is not among the
  sources. The spec gives \<^verbatim>\<open>find(collection, filter, limit) -> list of documents\<close> and says
  that listing fetches all documents, with no filter and no limit, and fails when the store
  read fails. Without a handle there is nothing to read, so the model raises; the spec
  gives no text for that error.
\<close>

definition get_documents :: "Database option \<Rightarrow> py_exn + doc list" where
  "get_documents db =
     (case db of
        None \<Rightarrow> Inl (Exception ''Database not available'')
      | Some d \<Rightarrow> server d (todo d))"

definition list_todos :: "Database option \<Rightarrow> failure + doc list" where
  "list_todos db =
     (case get_documents db of
        Inl e \<Rightarrow> Inl (HTTPException 500 (str_exn e))
      | Inr docs \<Rightarrow>
          (case list_sort_reverse (\<lambda>d. py_get d ''created_at'') docs of
             Inl e \<Rightarrow> Inl (HTTPException 500 (str_exn e))
           | Inr sorted_docs \<Rightarrow> Inr (map serialize_todo sorted_docs)))"

subsection \<open>\<^verbatim>\<open>create_todo\<close>\<close>

text \<open>
  Modelled from the spec: the \<^verbatim>\<open>Todo\<close> schema of \<^verbatim>\<open>schemas.py\<close>, which is not among the
  sources. The spec gives a todo a title, required at creation, and a completion flag that
  defaults to \<^verbatim>\<open>false\<close> at creation.
\<close>

datatype Todo = Todo string bool

definition new_Todo :: "string \<Rightarrow> Todo" where
  "new_Todo title = Todo title False"

text \<open>
  Modelled from the spec: \<^verbatim>\<open>create_document\<close> of \<^verbatim>\<open>database.py\<close>, which is not among the
  sources. The spec gives \<^verbatim>\<open>insert(collection, document) -> id\<close> and says that the new todo
  is persisted with an assigned \<^verbatim>\<open>created_at\<close> and no \<^verbatim>\<open>updated_at\<close>; \<^verbatim>\<open>create_todo\<close> passes
  the result to \<^verbatim>\<open>ObjectId\<close>, so the id comes back as text. Without a handle the model
  raises; the spec gives no text for that error.
\<close>

definition create_document ::
  "datetime \<Rightarrow> ObjectId \<Rightarrow> Database option \<Rightarrow> Todo \<Rightarrow> (py_exn + string) \<times> Database option" where
  "create_document now new_id db data =
     (case data of Todo title completed \<Rightarrow>
        (case db of
           None \<Rightarrow> (Inl (Exception ''Database not available''), db)
         | Some d \<Rightarrow>
             (case insert_one d new_id
                     [''title'' \<mapsto> VStr title, ''completed'' \<mapsto> VBool completed,
                      ''created_at'' \<mapsto> VDatetime now] of
                Inl e \<Rightarrow> (Inl e, db)
              | Inr (inserted_id, d') \<Rightarrow> (Inr (ObjectId_str inserted_id), Some d'))))"

text \<open>Everything in \<^verbatim>\<open>create_todo\<close> is inside one \<^verbatim>\<open>try\<close>: any exception becomes a 500.\<close>

definition create_todo ::
  "datetime \<Rightarrow> ObjectId \<Rightarrow> Database option \<Rightarrow> TodoCreate \<Rightarrow> (failure + doc) \<times> Database option" where
  "create_todo now new_id db payload =
     (case payload of TodoCreate title \<Rightarrow>
        (case create_document now new_id db (new_Todo title) of
           (Inl e, db') \<Rightarrow> (Inl (HTTPException 500 (str_exn e)), db')
         | (Inr inserted_id, db') \<Rightarrow>
             (case ObjectId inserted_id of
                Inl e \<Rightarrow> (Inl (HTTPException 500 (str_exn e)), db')
              | Inr oid \<Rightarrow>
                  (case db_todo db' of
                     Inl e \<Rightarrow> (Inl (HTTPException 500 (str_exn e)), db')
                   | Inr d \<Rightarrow>
                       (case find_one d oid of
                          Inl e \<Rightarrow> (Inl (HTTPException 500 (str_exn e)), db')
                        | Inr found \<Rightarrow>
                            (case serialize_found found of
                               Inl e \<Rightarrow> (Inl (HTTPException 500 (str_exn e)), db')
                             | Inr out \<Rightarrow> (Inr out, db')))))))"

subsection \<open>\<^verbatim>\<open>test_database\<close>\<close>

text \<open>
  The three signs of the status texts, as the bytes of their UTF-8 encoding: U+2705,
  U+274C, and U+26A0 followed by U+FE0F.
\<close>

definition check_mark :: string where
  "check_mark = [CHR 0xE2, CHR 0x9C, CHR 0x85]"

definition cross_mark :: string where
  "cross_mark = [CHR 0xE2, CHR 0x9D, CHR 0x8C]"

definition warning_sign :: string where
  "warning_sign = [CHR 0xE2, CHR 0x9A, CHR 0xA0, CHR 0xEF, CHR 0xB8, CHR 0x8F]"

record test_response =
  backend :: string
  database :: string
  database_url :: "string option"
  database_name :: "string option"
  connection_status :: string
  collections :: "string list"

text \<open>\<^verbatim>\<open>os.getenv(k)\<close> used as a condition: true when the variable is set to a non-empty text.\<close>

definition getenv_truthy :: "(string \<rightharpoonup> string) \<Rightarrow> string \<Rightarrow> bool" where
  "getenv_truthy env k = (case env k of None \<Rightarrow> False | Some v \<Rightarrow> v \<noteq> [])"

text \<open>
  The body of the outer \<^verbatim>\<open>try\<close>: the response as far as it got, and the exception that
  left the block, if any. The inner \<^verbatim>\<open>try\<close> catches what \<^verbatim>\<open>list_collection_names\<close>
  raises. A pymongo \<^verbatim>\<open>Database\<close> always has a \<^verbatim>\<open>name\<close>.
\<close>

definition test_database_try :: "Database option \<Rightarrow> test_response \<Rightarrow> test_response \<times> py_exn option" where
  "test_database_try db response =
     (case db of
        Some d \<Rightarrow>
          (let response1 = response
                 \<lparr>database := check_mark @ '' Available'',
                  database_url := Some (check_mark @ '' Configured''),
                  database_name := Some (name d),
                  connection_status := ''Connected''\<rparr>
           in case list_collection_names d of
                Inr colls \<Rightarrow>
                  (response1\<lparr>collections := take 10 colls,
                             database := check_mark @ '' Connected & Working''\<rparr>, None)
              | Inl e \<Rightarrow>
                  (response1\<lparr>database :=
                     warning_sign @ ''  Connected but Error: '' @ take 50 (str_exn e)\<rparr>, None))
      | None \<Rightarrow>
          (response\<lparr>database := warning_sign @ ''  Available but not initialized''\<rparr>, None))"

definition test_database :: "Database option \<Rightarrow> (string \<rightharpoonup> string) \<Rightarrow> failure + test_response" where
  "test_database db env =
     (let response0 =
            \<lparr>backend = check_mark @ '' Running'',
             database = cross_mark @ '' Not Available'',
             database_url = None,
             database_name = None,
             connection_status = ''Not Connected'',
             collections = []\<rparr>;
          response1 =
            (case test_database_try db response0 of
               (r, None) \<Rightarrow> r
             | (r, Some e) \<Rightarrow> r\<lparr>database := cross_mark @ '' Error: '' @ take 50 (str_exn e)\<rparr>)
      in Inr (response1
           \<lparr>database_url :=
              Some (if getenv_truthy env ''DATABASE_URL'' then check_mark @ '' Set''
                    else cross_mark @ '' Not Set''),
            database_name :=
              Some (if getenv_truthy env ''DATABASE_NAME'' then check_mark @ '' Set''
                    else cross_mark @ '' Not Set'')\<rparr>))"

subsection \<open>The routes\<close>

text \<open>
  What the framework sends for a handler's outcome. A returned value goes out with the
  status code the route declares (200 when it declares none), as the JSON body, except
  that a status which allows no body, such as 204, goes out with an empty one. An
  \<^verbatim>\<open>HTTPException\<close> goes out with its own status code and its detail; any other
  exception as a plain 500.
\<close>

datatype 'a content = Json 'a | Detail string | Internal_Server_Error | Empty

record 'a response =
  status_code :: nat
  body :: "'a content"

definition is_body_allowed_for_status_code :: "nat \<Rightarrow> bool" where
  "is_body_allowed_for_status_code code = (\<not> (code < 200 \<or> code = 204 \<or> code = 205 \<or> code = 304))"

definition respond :: "nat \<Rightarrow> failure + 'a \<Rightarrow> 'a response" where
  "respond code outcome =
     (case outcome of
        Inr v \<Rightarrow>
          \<lparr>status_code = code,
           body = (if is_body_allowed_for_status_code code then Json v else Empty)\<rparr>
      | Inl (HTTPException c detail) \<Rightarrow> \<lparr>status_code = c, body = Detail detail\<rparr>
      | Inl (Unhandled e) \<Rightarrow> \<lparr>status_code = 500, body = Internal_Server_Error\<rparr>)"

definition get_api_todos :: "Database option \<Rightarrow> doc list response" where
  "get_api_todos db = respond 200 (list_todos db)"

definition post_api_todos ::
  "datetime \<Rightarrow> ObjectId \<Rightarrow> Database option \<Rightarrow> TodoCreate \<Rightarrow> doc response \<times> Database option" where
  "post_api_todos now new_id db payload =
     (case create_todo now new_id db payload of (outcome, db') \<Rightarrow> (respond 201 outcome, db'))"

definition patch_api_todos ::
  "datetime \<Rightarrow> Database option \<Rightarrow> string \<Rightarrow> TodoUpdate \<Rightarrow> doc response \<times> Database option" where
  "patch_api_todos now db todo_id payload =
     (case update_todo now db todo_id payload of (outcome, db') \<Rightarrow> (respond 200 outcome, db'))"

definition delete_api_todos :: "Database option \<Rightarrow> string \<Rightarrow> doc response \<times> Database option" where
  "delete_api_todos db todo_id =
     (case delete_todo db todo_id of (outcome, db') \<Rightarrow> (respond 204 outcome, db'))"

definition get_test :: "Database option \<Rightarrow> (string \<rightharpoonup> string) \<Rightarrow> test_response response" where
  "get_test db env = respond 200 (test_database db env)"

subsection \<open>Example data\<close>

definition milk_id :: ObjectId where
  "milk_id = Oid ''0123456789abcdef01234567''"

definition bread_id :: ObjectId where
  "bread_id = Oid ''0123456789abcdef01234568''"

definition milk :: doc where
  "milk = [''_id'' \<mapsto> VObjectId milk_id, ''title'' \<mapsto> VStr ''Buy milk'',
           ''completed'' \<mapsto> VBool False, ''created_at'' \<mapsto> VDatetime (Datetime 2024 1 2 3 4 5 0)]"

text \<open>A document that some other writer put into the collection, without \<^verbatim>\<open>created_at\<close>.\<close>

definition legacy :: doc where
  "legacy = [''_id'' \<mapsto> VObjectId (Oid ''0123456789abcdef01234568''), ''title'' \<mapsto> VStr ''Old'']"

definition milk_db :: Database where
  "milk_db = \<lparr>name = ''app'', unreachable = None, collection_names = [''todo''], todo = [milk]\<rparr>"

definition mixed_db :: Database where
  "mixed_db = \<lparr>name = ''app'', unreachable = None, collection_names = [''todo''],
                todo = [milk, legacy]\<rparr>"

section \<open>Facts about the store and the payload\<close>

lemma supplied_cases:
  assumes "t = Unset \<Longrightarrow> P" and "t = Supplied None \<Longrightarrow> P"
    and "\<And>x. t = Supplied (Some x) \<Longrightarrow> P"
  shows P
proof (cases t)
  case Unset
  then show ?thesis by (rule assms(1))
next
  case (Supplied v)
  then show ?thesis by (cases v) (simp_all add: assms(2,3))
qed

lemma update_fields_cases:
  "update_fields (TodoUpdate t c) =
     (case t of Supplied (Some s) \<Rightarrow> [(''title'', VStr s)] | _ \<Rightarrow> []) @
     (case c of Supplied (Some b) \<Rightarrow> [(''completed'', VBool b)] | _ \<Rightarrow> [])"
  by (cases t rule: supplied_cases; cases c rule: supplied_cases) (simp_all add: update_fields_def)

text \<open>The field set is empty exactly for the body \<^verbatim>\<open>{}\<close> and for bodies of nulls only.\<close>

lemma update_fields_empty_iff:
  "update_fields (TodoUpdate t c) = [] \<longleftrightarrow>
     (t = Unset \<or> t = Supplied None) \<and> (c = Unset \<or> c = Supplied None)"
  by (cases t rule: supplied_cases; cases c rule: supplied_cases) (simp_all add: update_fields_def)

lemma update_fields_no_id: "''_id'' \<notin> fst ` set (update_fields p @ [(''updated_at'', v)])"
proof (cases p)
  case (TodoUpdate t c)
  show ?thesis unfolding TodoUpdate update_fields_cases
    by (cases t rule: supplied_cases; cases c rule: supplied_cases; simp)
qed

lemma set_fields_other: "k \<notin> fst ` set kvs \<Longrightarrow> set_fields d kvs k = d k"
  by (induction d kvs rule: set_fields.induct) auto

lemma set_fields_update:
  assumes new: "new = set_fields old (update_fields (TodoUpdate t c) @ [(''updated_at'', VDatetime now)])"
  shows "new ''_id'' = old ''_id''"
    and "new ''created_at'' = old ''created_at''"
    and "new ''title'' = (case t of Supplied (Some s) \<Rightarrow> Some (VStr s) | _ \<Rightarrow> old ''title'')"
    and "new ''completed'' = (case c of Supplied (Some b) \<Rightarrow> Some (VBool b) | _ \<Rightarrow> old ''completed'')"
    and "new ''updated_at'' = Some (VDatetime now)"
    and "k \<noteq> ''title'' \<Longrightarrow> k \<noteq> ''completed'' \<Longrightarrow> k \<noteq> ''updated_at'' \<Longrightarrow> new k = old k"
  unfolding new update_fields_cases
  by (cases t rule: supplied_cases; cases c rule: supplied_cases; simp)+

lemma update_doc_no_match:
  "find_doc ds oid = None \<Longrightarrow> update_doc ds oid kvs = (0, ds)"
  by (induction ds) (auto split: if_splits)

lemma delete_doc_no_match:
  "find_doc ds oid = None \<Longrightarrow> delete_doc ds oid = (0, ds)"
  by (induction ds) (auto split: if_splits)

lemma update_doc_found:
  "find_doc ds oid = Some old \<Longrightarrow> ''_id'' \<notin> fst ` set kvs \<Longrightarrow>
   update_doc ds oid kvs = (1, snd (update_doc ds oid kvs)) \<and>
   find_doc (snd (update_doc ds oid kvs)) oid = Some (set_fields old kvs)"
proof (induction ds)
  case Nil
  then show ?case by simp
next
  case (Cons d ds)
  show ?case
  proof (cases "d ''_id'' = Some (VObjectId oid)")
    case True
    with Cons.prems show ?thesis by (simp add: set_fields_other)
  next
    case False
    with Cons show ?thesis by (auto split: prod.splits)
  qed
qed

lemma update_doc_others:
  "oid' \<noteq> oid \<Longrightarrow> ''_id'' \<notin> fst ` set kvs \<Longrightarrow>
   find_doc (snd (update_doc ds oid kvs)) oid' = find_doc ds oid'"
proof (induction ds)
  case Nil
  then show ?case by simp
next
  case (Cons d ds)
  show ?case
  proof (cases "d ''_id'' = Some (VObjectId oid)")
    case True
    with Cons.prems show ?thesis by (simp add: set_fields_other)
  next
    case False
    with Cons show ?thesis by (auto split: prod.splits)
  qed
qed

lemma update_doc_matched:
  "fst (update_doc ds oid kvs) \<noteq> 0 \<Longrightarrow> \<exists>old. find_doc ds oid = Some old"
  by (induction ds) (simp_all split: if_splits prod.splits)

text \<open>What a successful \<^verbatim>\<open>update_todo\<close> went through.\<close>

lemma update_todo_success:
  assumes "update_todo now db todo_id payload = (Inr out, db')"
  shows "\<exists>oid d n d' new.
      ObjectId todo_id = Inr oid \<and> update_fields payload \<noteq> [] \<and> db = Some d \<and>
      unreachable d = None \<and>
      update_doc (todo d) oid (update_fields payload @ [(''updated_at'', VDatetime now)]) = (n, todo d') \<and>
      n \<noteq> 0 \<and> d' = d\<lparr>todo := todo d'\<rparr> \<and> db' = Some d' \<and>
      find_doc (todo d') oid = Some new \<and> out = serialize_todo new"
  using assms
  by (auto simp: update_todo_def db_todo_def update_one_def find_one_def server_def serialize_found_def
      split: sum.splits if_splits option.splits prod.splits)

lemma ObjectId_milk: "ObjectId ''0123456789abcdef01234567'' = Inr milk_id"
  by (simp add: ObjectId_def is_hex_def lower_hex_def milk_id_def)

lemma ObjectId_bread: "ObjectId ''0123456789abcdef01234568'' = Inr bread_id"
  by (simp add: ObjectId_def is_hex_def lower_hex_def bread_id_def)

lemma ObjectId_other: "ObjectId ''0123456789abcdef01234568'' = Inr (Oid ''0123456789abcdef01234568'')"
  by (simp add: ObjectId_def is_hex_def lower_hex_def)

lemma lower_hex_id: "is_lower_hex c \<Longrightarrow> lower_hex c = c \<and> is_hex c"
  by (auto simp: is_lower_hex_def lower_hex_def is_hex_def)

lemma lower_hex_lower: "is_hex c \<Longrightarrow> is_lower_hex (lower_hex c)"
  by (auto simp: is_lower_hex_def lower_hex_def is_hex_def)

lemma map_lower_hex_id: "list_all is_lower_hex h \<Longrightarrow> map lower_hex h = h \<and> list_all is_hex h"
  by (induction h) (simp_all add: lower_hex_id)

lemma ObjectId_str_inverse: "wf_ObjectId oid \<Longrightarrow> ObjectId (ObjectId_str oid) = Inr oid"
  by (cases oid) (simp add: ObjectId_def map_lower_hex_id)

lemma ObjectId_wf: "ObjectId s = Inr oid \<Longrightarrow> wf_ObjectId oid"
  by (auto simp: ObjectId_def list_all_iff lower_hex_lower split: if_splits)

lemma find_doc_id: "find_doc ds oid = Some d \<Longrightarrow> d ''_id'' = Some (VObjectId oid)"
  by (induction ds) (auto split: if_splits)

lemma find_doc_append:
  "find_doc (ds @ es) oid = (case find_doc ds oid of Some d \<Rightarrow> Some d | None \<Rightarrow> find_doc es oid)"
  by (induction ds) auto

text \<open>What a successful \<^verbatim>\<open>create_todo\<close> went through.\<close>

lemma create_todo_success:
  assumes "create_todo now new_id db payload = (Inr out, db')"
  shows "\<exists>title d0 d oid doc.
      payload = TodoCreate title \<and> db = Some d0 \<and> unreachable d0 = None \<and>
      find_doc (todo d0) new_id = None \<and>
      insert_one d0 new_id [''title'' \<mapsto> VStr title, ''completed'' \<mapsto> VBool False,
                            ''created_at'' \<mapsto> VDatetime now] = Inr (new_id, d) \<and>
      db' = Some d \<and> ObjectId (ObjectId_str new_id) = Inr oid \<and>
      find_doc (todo d) oid = Some doc \<and> out = serialize_todo doc"
  using assms
  by (cases payload; cases db)
    (auto simp: create_todo_def create_document_def new_Todo_def insert_one_def db_todo_def
      find_one_def server_def serialize_found_def
      split: sum.splits option.splits prod.splits if_splits)

lemma insort_reverse_mset: "insort_reverse x ys = Inr zs \<Longrightarrow> mset zs = mset (x # ys)"
proof (induction ys arbitrary: zs)
  case Nil
  then show ?case by auto
next
  case (Cons y ys)
  then show ?case
    by (auto split: sum.splits if_splits)
qed

lemma sort_reverse_mset: "sort_reverse xs = Inr zs \<Longrightarrow> mset zs = mset xs"
proof (induction xs arbitrary: zs)
  case Nil
  then show ?case by simp
next
  case (Cons x xs)
  then show ?case
    by (auto split: sum.splits dest: insort_reverse_mset)
qed

text \<open>Every todo that \<^verbatim>\<open>list_todos\<close> returns is the serialization of a stored document.\<close>

lemma list_todos_success:
  assumes "list_todos db = Inr outs"
  shows "\<exists>d docs. db = Some d \<and> outs = map serialize_todo docs \<and> mset docs = mset (todo d)"
proof -
  from assms obtain d where d: "db = Some d" and reach: "unreachable d = None"
    by (cases db) (auto simp: list_todos_def get_documents_def server_def split: option.splits)
  let ?ps = "map (\<lambda>x. (py_get x ''created_at'', x)) (todo d)"
  from assms d reach obtain zs where zs: "sort_reverse ?ps = Inr zs" and outs: "outs = map serialize_todo (map snd zs)"
    by (auto simp: list_todos_def get_documents_def server_def list_sort_reverse_def split: sum.splits)
  from sort_reverse_mset [OF zs] have "image_mset snd (mset zs) = image_mset snd (mset ?ps)"
    by (rule arg_cong)
  then have "mset (map snd zs) = mset (map snd ?ps)"
    by (simp only: mset_map)
  then have "mset (map snd zs) = mset (todo d)"
    by (simp add: comp_def)
  with d outs show ?thesis by blast
qed

text \<open>
  Sorting succeeds when every key is a datetime, and then returns the documents, all of
  them, in descending order of the key.
\<close>

lemma py_lt_datetimes:
  "py_lt (VDatetime a) (VDatetime b) = Inr False \<longleftrightarrow> datetime_key b \<le> datetime_key a"
  by (simp add: not_less)

lemma insort_reverse_datetimes:
  assumes "\<forall>p\<in>set (x # ys). \<exists>t. fst p = VDatetime t"
    and "sorted_wrt (\<lambda>a b. py_lt (fst a) (fst b) = Inr False) ys"
  shows "\<exists>zs. insort_reverse x ys = Inr zs \<and> mset zs = mset (x # ys) \<and>
           sorted_wrt (\<lambda>a b. py_lt (fst a) (fst b) = Inr False) zs"
  using assms
proof (induction ys)
  case Nil
  then show ?case by simp
next
  case (Cons y ys)
  from Cons.prems(1) obtain tx where tx: "fst x = VDatetime tx"
    by auto
  from Cons.prems(1) obtain ty where ty: "fst y = VDatetime ty"
    by auto
  have lt: "py_lt (fst x) (fst y) = Inr (datetime_key tx < datetime_key ty)"
    by (simp add: tx ty)
  from Cons.prems(2) have sorted_ys: "sorted_wrt (\<lambda>a b. py_lt (fst a) (fst b) = Inr False) ys"
    and y_first: "\<forall>z\<in>set ys. py_lt (fst y) (fst z) = Inr False"
    by simp_all
  show ?case
  proof (cases "datetime_key tx < datetime_key ty")
    case True
    from Cons.prems(1) have "\<forall>p\<in>set (x # ys). \<exists>t. fst p = VDatetime t"
      by simp
    from Cons.IH [OF this sorted_ys] obtain zs where zs: "insort_reverse x ys = Inr zs"
      and perm: "mset zs = mset (x # ys)"
      and sorted_zs: "sorted_wrt (\<lambda>a b. py_lt (fst a) (fst b) = Inr False) zs"
      by blast
    from perm have "set_mset (mset zs) = set_mset (mset (x # ys))" by simp
    then have set: "set zs = insert x (set ys)" by simp
    have yx: "py_lt (fst y) (fst x) = Inr False"
      using True by (simp add: tx ty py_lt_datetimes less_imp_le)
    have "\<forall>z\<in>set zs. py_lt (fst y) (fst z) = Inr False"
      unfolding set using yx y_first by simp
    with sorted_zs have s: "sorted_wrt (\<lambda>a b. py_lt (fst a) (fst b) = Inr False) (y # zs)"
      by simp
    have r: "insort_reverse x (y # ys) = Inr (y # zs)"
      by (simp add: lt True zs)
    have p: "mset (y # zs) = mset (x # y # ys)"
      using perm by simp
    from r p s show ?thesis by blast
  next
    case False
    have "\<forall>z\<in>set ys. py_lt (fst x) (fst z) = Inr False"
    proof
      fix z assume z: "z \<in> set ys"
      with Cons.prems(1) obtain tz where tz: "fst z = VDatetime tz" by auto
      from y_first z have "py_lt (fst y) (fst z) = Inr False" by simp
      then have "datetime_key tz \<le> datetime_key ty"
        by (simp only: ty tz py_lt_datetimes)
      moreover from False have "datetime_key ty \<le> datetime_key tx" by (simp add: not_less)
      ultimately have "datetime_key tz \<le> datetime_key tx" by (rule order_trans)
      then show "py_lt (fst x) (fst z) = Inr False"
        by (simp only: tx tz py_lt_datetimes)
    qed
    moreover have "py_lt (fst x) (fst y) = Inr False"
      by (simp add: lt False)
    ultimately have s: "sorted_wrt (\<lambda>a b. py_lt (fst a) (fst b) = Inr False) (x # y # ys)"
      using Cons.prems(2) by simp
    have r: "insort_reverse x (y # ys) = Inr (x # y # ys)"
      by (simp add: lt False)
    from r s show ?thesis by simp
  qed
qed

lemma sort_reverse_datetimes:
  assumes "\<forall>p\<in>set xs. \<exists>t. fst p = VDatetime t"
  shows "\<exists>zs. sort_reverse xs = Inr zs \<and> mset zs = mset xs \<and>
           sorted_wrt (\<lambda>a b. py_lt (fst a) (fst b) = Inr False) zs"
  using assms
proof (induction xs)
  case Nil
  then show ?case by simp
next
  case (Cons x xs)
  from Cons.prems have "\<forall>p\<in>set xs. \<exists>t. fst p = VDatetime t" by simp
  from Cons.IH [OF this] obtain ys where ys: "sort_reverse xs = Inr ys" and perm: "mset ys = mset xs"
    and sorted_ys: "sorted_wrt (\<lambda>a b. py_lt (fst a) (fst b) = Inr False) ys"
    by blast
  from perm have "set_mset (mset ys) = set_mset (mset xs)" by simp
  then have "set ys = set xs" by simp
  with Cons.prems have "\<forall>p\<in>set (x # ys). \<exists>t. fst p = VDatetime t" by simp
  from insort_reverse_datetimes [OF this sorted_ys] obtain zs where
    zs: "insort_reverse x ys = Inr zs" and perm': "mset zs = mset (x # ys)"
    and sorted_zs: "sorted_wrt (\<lambda>a b. py_lt (fst a) (fst b) = Inr False) zs"
    by blast
  have r: "sort_reverse (x # xs) = Inr zs" by (simp add: ys zs)
  have p: "mset zs = mset (x # xs)" using perm' perm by simp
  from r p sorted_zs show ?case by blast
qed

lemma list_todos_sorted:
  assumes "unreachable d = None"
    and "\<forall>x\<in>set (todo d). \<exists>t. x ''created_at'' = Some (VDatetime t)"
  shows "\<exists>docs. list_todos (Some d) = Inr (map serialize_todo docs) \<and> mset docs = mset (todo d) \<and>
           sorted_wrt (\<lambda>a b. py_lt (py_get a ''created_at'') (py_get b ''created_at'') = Inr False) docs"
proof -
  let ?ps = "map (\<lambda>x. (py_get x ''created_at'', x)) (todo d)"
  have "\<forall>p\<in>set ?ps. \<exists>t. fst p = VDatetime t"
  proof
    fix p assume "p \<in> set ?ps"
    then obtain x where x: "x \<in> set (todo d)" and p: "p = (py_get x ''created_at'', x)"
      by auto
    from assms(2) x obtain t where "x ''created_at'' = Some (VDatetime t)" by blast
    then show "\<exists>t. fst p = VDatetime t" by (simp add: p py_get_def)
  qed
  from sort_reverse_datetimes [OF this] obtain zs where zs: "sort_reverse ?ps = Inr zs"
    and perm: "mset zs = mset ?ps"
    and sorted_zs: "sorted_wrt (\<lambda>a b. py_lt (fst a) (fst b) = Inr False) zs"
    by blast
  from perm have "set_mset (mset zs) = set_mset (mset ?ps)" by simp
  then have "set zs = set ?ps" by simp
  then have fst_snd: "\<forall>p\<in>set zs. fst p = py_get (snd p) ''created_at''" by auto
  from perm have "image_mset snd (mset zs) = image_mset snd (mset ?ps)"
    by (rule arg_cong)
  then have "mset (map snd zs) = mset (map snd ?ps)"
    by (simp only: mset_map)
  then have perm_docs: "mset (map snd zs) = mset (todo d)"
    by (simp add: comp_def)
  from sorted_zs fst_snd
  have "sorted_wrt (\<lambda>a b. py_lt (py_get (snd a) ''created_at'') (py_get (snd b) ''created_at'') = Inr False) zs"
  proof (induction zs)
    case Nil
    then show ?case by simp
  next
    case (Cons z zs)
    then show ?case by simp
  qed
  then have sorted_docs:
    "sorted_wrt (\<lambda>a b. py_lt (py_get a ''created_at'') (py_get b ''created_at'') = Inr False) (map snd zs)"
    by (simp add: sorted_wrt_map)
  have "list_todos (Some d) = Inr (map serialize_todo (map snd zs))"
    by (simp add: list_todos_def get_documents_def server_def assms(1) list_sort_reverse_def zs)
  with perm_docs sorted_docs show ?thesis by blast
qed

lemma find_doc_in_set: "find_doc ds oid = Some d \<Longrightarrow> d \<in> set ds"
  by (induction ds) (auto split: if_splits)

lemma list_todos_milk: "list_todos (Some milk_db) = Inr [serialize_todo milk]"
  by (simp add: list_todos_def get_documents_def server_def list_sort_reverse_def milk_db_def)

section \<open>Properties\<close>

text \<open>
  Claim C4. An update or a delete whose path identifier is not a well-formed \<^verbatim>\<open>ObjectId\<close>
  fails with status 400, not 404, and the store is as it was: the identifier is parsed
  before the store is touched, so this holds whatever the store contains and also when there
  is no store.
\<close>

theorem malformed_id_bad_request:
  assumes "ObjectId todo_id = Inl e"
  shows "update_todo now db todo_id payload = (Inl (HTTPException 400 ''Invalid ID''), db)
       \<and> delete_todo db todo_id = (Inl (HTTPException 400 ''Invalid ID''), db)"
  using assms by (simp add: update_todo_def delete_todo_def)

theorem malformed_id_bad_request_witness:
  "update_todo (Datetime 2024 6 1 12 0 0 0) (Some milk_db) ''not-an-id''
       (TodoUpdate (Supplied (Some ''Buy bread'')) Unset)
     = (Inl (HTTPException 400 ''Invalid ID''), Some milk_db)
   \<and> delete_todo (Some milk_db) ''not-an-id'' = (Inl (HTTPException 400 ''Invalid ID''), Some milk_db)
   \<and> delete_todo None ''not-an-id'' = (Inl (HTTPException 400 ''Invalid ID''), None)"
proof -
  have bad: "ObjectId ''not-an-id'' = Inl (InvalidId (quoted ''not-an-id'' @
      '' is not a valid ObjectId, it must be a 12-byte input or a 24-character hex string''))"
    by (simp add: ObjectId_def)
  show ?thesis
    using malformed_id_bad_request [OF bad, of _ "Some milk_db"] malformed_id_bad_request [OF bad, of _ None]
    by simp
qed

text \<open>
  Claim C2. An update whose effective field set is empty, that is, whose body is \<^verbatim>\<open>{}\<close> or
  supplies nothing but nulls, fails with status 400 and leaves the store as it was: the
  handler returns before \<^verbatim>\<open>updated_at\<close> is stamped and before the store is called. The
  detail is that of the malformed identifier when the identifier is malformed too, since
  that check comes first.
\<close>

theorem empty_update_bad_request:
  assumes "t = Unset \<or> t = Supplied None" and "c = Unset \<or> c = Supplied None"
  shows "update_todo now db todo_id (TodoUpdate t c) =
           (Inl (HTTPException 400
              (case ObjectId todo_id of Inl e \<Rightarrow> ''Invalid ID'' | Inr oid \<Rightarrow> ''No fields to update'')),
            db)"
proof -
  have "update_fields (TodoUpdate t c) = []"
    using assms by (simp only: update_fields_empty_iff)
  then show ?thesis
    by (simp add: update_todo_def split: sum.splits)
qed

theorem empty_update_bad_request_witness:
  "update_todo (Datetime 2024 6 1 12 0 0 0) (Some milk_db) ''0123456789abcdef01234567''
       (TodoUpdate Unset Unset)
     = (Inl (HTTPException 400 ''No fields to update''), Some milk_db)
   \<and> update_todo (Datetime 2024 6 1 12 0 0 0) (Some milk_db) ''0123456789abcdef01234567''
       (TodoUpdate (Supplied None) (Supplied None))
     = (Inl (HTTPException 400 ''No fields to update''), Some milk_db)
   \<and> update_todo (Datetime 2024 6 1 12 0 0 0) (Some milk_db) ''milk''
       (TodoUpdate Unset (Supplied None))
     = (Inl (HTTPException 400 ''Invalid ID''), Some milk_db)"
  using empty_update_bad_request [of Unset Unset "Datetime 2024 6 1 12 0 0 0" "Some milk_db"
      "''0123456789abcdef01234567''"]
    empty_update_bad_request [of "Supplied None" "Supplied None" "Datetime 2024 6 1 12 0 0 0"
      "Some milk_db" "''0123456789abcdef01234567''"]
    empty_update_bad_request [of Unset "Supplied None" "Datetime 2024 6 1 12 0 0 0"
      "Some milk_db" "''milk''"]
  by (simp add: ObjectId_milk) (simp add: ObjectId_def)

text \<open>
  Claim C3. A successful update changes, in the document it matched, the supplied fields
  among \<^verbatim>\<open>title\<close> and \<^verbatim>\<open>completed\<close> and the stamp \<^verbatim>\<open>updated_at\<close>, and nothing else:
  \<^verbatim>\<open>_id\<close>, \<^verbatim>\<open>created_at\<close>, a field that was not supplied or was supplied as null, and every
  other key keep their values; the other documents are as they were; and the todo that is
  returned is the serialization of the updated document, with the old \<^verbatim>\<open>id\<close> and
  \<^verbatim>\<open>created_at\<close>.
\<close>

theorem update_changes_only_supplied_fields:
  assumes "update_todo now db todo_id (TodoUpdate t c) = (Inr out, db')"
  shows "\<exists>oid d d' old new.
      ObjectId todo_id = Inr oid \<and> db = Some d \<and> db' = Some d' \<and>
      find_doc (todo d) oid = Some old \<and> find_doc (todo d') oid = Some new \<and>
      out = serialize_todo new \<and>
      new ''_id'' = old ''_id'' \<and>
      new ''created_at'' = old ''created_at'' \<and>
      new ''title'' = (case t of Supplied (Some s) \<Rightarrow> Some (VStr s) | _ \<Rightarrow> old ''title'') \<and>
      new ''completed'' = (case c of Supplied (Some b) \<Rightarrow> Some (VBool b) | _ \<Rightarrow> old ''completed'') \<and>
      new ''updated_at'' = Some (VDatetime now) \<and>
      (\<forall>k. k \<noteq> ''title'' \<and> k \<noteq> ''completed'' \<and> k \<noteq> ''updated_at'' \<longrightarrow> new k = old k) \<and>
      (\<forall>oid'. oid' \<noteq> oid \<longrightarrow> find_doc (todo d') oid' = find_doc (todo d) oid') \<and>
      out ''id'' = serialize_todo old ''id'' \<and>
      out ''created_at'' = serialize_todo old ''created_at''"
proof -
  let ?kvs = "update_fields (TodoUpdate t c) @ [(''updated_at'', VDatetime now)]"
  from update_todo_success [OF assms] obtain oid d n d' new where
    oid: "ObjectId todo_id = Inr oid" and db: "db = Some d" and db': "db' = Some d'" and
    upd: "update_doc (todo d) oid ?kvs = (n, todo d')" and n: "n \<noteq> 0" and
    new: "find_doc (todo d') oid = Some new" and out: "out = serialize_todo new"
    by blast
  have noid: "''_id'' \<notin> fst ` set ?kvs"
    by (rule update_fields_no_id)
  from upd n have "fst (update_doc (todo d) oid ?kvs) \<noteq> 0" by simp
  then obtain old where old: "find_doc (todo d) oid = Some old"
    using update_doc_matched by blast
  from update_doc_found [OF old noid] upd new have new_eq: "new = set_fields old ?kvs"
    by simp
  have others: "\<forall>oid'. oid' \<noteq> oid \<longrightarrow> find_doc (todo d') oid' = find_doc (todo d) oid'"
    using update_doc_others [OF _ noid, of _ oid "todo d"] upd by simp
  note f = set_fields_update [OF new_eq]
  have ser: "out ''id'' = serialize_todo old ''id''" "out ''created_at'' = serialize_todo old ''created_at''"
    unfolding out by (simp_all add: serialize_todo_def py_get_def f(1,2))
  show ?thesis
    using oid db db' old new out f(1-5) others ser f(6) by blast
qed

theorem update_changes_only_supplied_fields_witness:
  "\<exists>out db'.
     update_todo (Datetime 2024 6 1 12 0 0 0) (Some milk_db) ''0123456789abcdef01234567''
       (TodoUpdate Unset (Supplied (Some True))) = (Inr out, db')
     \<and> out ''id'' = Some (VStr ''0123456789abcdef01234567'')
     \<and> out ''title'' = Some (VStr ''Buy milk'')
     \<and> out ''completed'' = Some (VBool True)
     \<and> out ''created_at'' = Some (VDatetime (Datetime 2024 1 2 3 4 5 0))
     \<and> out ''updated_at'' = Some (VDatetime (Datetime 2024 6 1 12 0 0 0))"
proof -
  let ?new = "milk(''completed'' \<mapsto> VBool True, ''updated_at'' \<mapsto> VDatetime (Datetime 2024 6 1 12 0 0 0))"
  have run: "update_todo (Datetime 2024 6 1 12 0 0 0) (Some milk_db) ''0123456789abcdef01234567''
       (TodoUpdate Unset (Supplied (Some True)))
     = (Inr (serialize_todo ?new), Some (milk_db\<lparr>todo := [?new]\<rparr>))"
    by (simp add: ObjectId_milk update_todo_def update_fields_def db_todo_def update_one_def
        find_one_def server_def serialize_found_def milk_db_def milk_def)
  have old: "find_doc (todo milk_db) milk_id = Some milk"
    by (simp add: milk_db_def milk_def)
  from update_changes_only_supplied_fields [OF run] old
  have "serialize_todo ?new ''id'' = serialize_todo milk ''id''"
    and "serialize_todo ?new ''created_at'' = serialize_todo milk ''created_at''"
    by (auto simp: ObjectId_milk)
  then show ?thesis
    unfolding run
    by (simp add: serialize_todo_def py_get_def py_get_default_def milk_def milk_id_def)
qed

text \<open>
  Claim C5, as amended. A delete, and an update that supplies at least one field that is
  not null, fail with status 404 when the identifier is well formed and the store, which
  answers, holds no document with it; the store is as it was. (An update with nothing to
  change is answered 400 before the store is asked: see the counterexample.)
\<close>

theorem not_found:
  assumes "ObjectId todo_id = Inr oid" and "unreachable d = None" and "find_doc (todo d) oid = None"
  shows "delete_todo (Some d) todo_id = (Inl (HTTPException 404 ''Todo not found''), Some d)
       \<and> (update_fields payload \<noteq> [] \<longrightarrow>
            update_todo now (Some d) todo_id payload = (Inl (HTTPException 404 ''Todo not found''), Some d))"
  using assms
  by (simp add: delete_todo_def update_todo_def db_todo_def delete_one_def update_one_def server_def
      update_doc_no_match delete_doc_no_match)

theorem not_found_witness:
  "delete_todo (Some milk_db) ''0123456789abcdef01234568''
     = (Inl (HTTPException 404 ''Todo not found''), Some milk_db)
   \<and> update_todo (Datetime 2024 6 1 12 0 0 0) (Some milk_db) ''0123456789abcdef01234568''
        (TodoUpdate Unset (Supplied (Some True)))
     = (Inl (HTTPException 404 ''Todo not found''), Some milk_db)"
proof -
  have reach: "unreachable milk_db = None"
    by (simp add: milk_db_def)
  have absent: "find_doc (todo milk_db) (Oid ''0123456789abcdef01234568'') = None"
    by (simp add: milk_db_def milk_def milk_id_def)
  have some: "update_fields (TodoUpdate Unset (Supplied (Some True))) \<noteq> []"
    by (simp add: update_fields_def)
  from not_found [OF ObjectId_other reach absent] some show ?thesis
    by blast
qed

theorem not_found_counterexample:
  "ObjectId ''0123456789abcdef01234568'' = Inr (Oid ''0123456789abcdef01234568'')
   \<and> find_one milk_db (Oid ''0123456789abcdef01234568'') = Inr None
   \<and> update_todo (Datetime 2024 6 1 12 0 0 0) (Some milk_db) ''0123456789abcdef01234568''
        (TodoUpdate Unset Unset)
      = (Inl (HTTPException 400 ''No fields to update''), Some milk_db)
   \<and> fst (update_todo (Datetime 2024 6 1 12 0 0 0) (Some milk_db) ''0123456789abcdef01234568''
        (TodoUpdate Unset Unset))
      \<noteq> Inl (HTTPException 404 ''Todo not found'')"
  by (simp add: ObjectId_other update_todo_def update_fields_def find_one_def server_def
      milk_db_def milk_def milk_id_def)

text \<open>
  Claim C9. A delete that succeeds is answered with status 204 and an empty body. The
  handler returns \<^verbatim>\<open>{"ok": True}\<close>, but the route declares status 204, which allows no
  body, so the framework sends none: the status code alone says that the todo is gone.
\<close>

theorem delete_success_no_content:
  assumes "delete_todo db todo_id = (Inr r, db')"
  shows "delete_api_todos db todo_id = (\<lparr>status_code = 204, body = Empty\<rparr>, db')"
  using assms
  by (simp add: delete_api_todos_def respond_def is_body_allowed_for_status_code_def)

theorem delete_success_no_content_witness:
  "delete_todo (Some milk_db) ''0123456789abcdef01234567''
     = (Inr [''ok'' \<mapsto> VBool True], Some (milk_db\<lparr>todo := []\<rparr>))
   \<and> delete_api_todos (Some milk_db) ''0123456789abcdef01234567''
     = (\<lparr>status_code = 204, body = Empty\<rparr>, Some (milk_db\<lparr>todo := []\<rparr>))"
proof -
  have run: "delete_todo (Some milk_db) ''0123456789abcdef01234567''
     = (Inr [''ok'' \<mapsto> VBool True], Some (milk_db\<lparr>todo := []\<rparr>))"
    by (simp add: delete_todo_def ObjectId_milk db_todo_def delete_one_def server_def milk_db_def milk_def)
  from run delete_success_no_content [OF run] show ?thesis
    by simp
qed

text \<open>
  Claim C7. Every todo that an operation returns is the serialization of a stored document:
  \<^verbatim>\<open>list_todos\<close> returns the serializations of the documents of the collection, all of
  them, and \<^verbatim>\<open>create_todo\<close> and \<^verbatim>\<open>update_todo\<close> return the serialization of a document
  that is in the collection afterwards. (\<^verbatim>\<open>delete_todo\<close> and \<^verbatim>\<open>test_database\<close> return no
  todo.) The serialization of a document is an object with exactly the keys \<^verbatim>\<open>id\<close>,
  \<^verbatim>\<open>title\<close>, \<^verbatim>\<open>completed\<close>, \<^verbatim>\<open>created_at\<close> and \<^verbatim>\<open>updated_at\<close>: \<^verbatim>\<open>id\<close> is the text of
  the stored identifier, \<^verbatim>\<open>title\<close> the stored title or the empty string when there is
  none, \<^verbatim>\<open>completed\<close> the stored flag or \<^verbatim>\<open>false\<close> when there is none, and the two
  timestamps are what is stored, \<^verbatim>\<open>null\<close> when absent. (A stored value of another kind is
  printed by \<^verbatim>\<open>str\<close>, respectively tested by \<^verbatim>\<open>bool\<close>.)
\<close>

theorem returned_todos_serialized:
  "(list_todos db = Inr outs \<longrightarrow>
      (\<exists>d docs. db = Some d \<and> mset docs = mset (todo d) \<and> outs = map serialize_todo docs))
   \<and> (create_todo now new_id db payload = (Inr out, db') \<longrightarrow>
      (\<exists>d doc. db' = Some d \<and> doc \<in> set (todo d) \<and> out = serialize_todo doc))
   \<and> (update_todo now db todo_id changes = (Inr out, db') \<longrightarrow>
      (\<exists>d doc. db' = Some d \<and> doc \<in> set (todo d) \<and> out = serialize_todo doc))
   \<and> serialize_todo doc ''id'' =
       Some (VStr (case doc ''_id'' of
                     Some (VObjectId oid) \<Rightarrow> ObjectId_str oid
                   | Some v \<Rightarrow> py_str v
                   | None \<Rightarrow> ''None''))
   \<and> serialize_todo doc ''title'' = Some (case doc ''title'' of Some v \<Rightarrow> v | None \<Rightarrow> VStr [])
   \<and> serialize_todo doc ''completed'' =
       Some (VBool (case doc ''completed'' of
                      Some (VBool b) \<Rightarrow> b
                    | Some v \<Rightarrow> py_bool v
                    | None \<Rightarrow> False))
   \<and> serialize_todo doc ''created_at'' = Some (case doc ''created_at'' of Some v \<Rightarrow> v | None \<Rightarrow> VNone)
   \<and> serialize_todo doc ''updated_at'' = Some (case doc ''updated_at'' of Some v \<Rightarrow> v | None \<Rightarrow> VNone)
   \<and> dom (serialize_todo doc) = {''id'', ''title'', ''completed'', ''created_at'', ''updated_at''}"
proof -
  have listed: "list_todos db = Inr outs \<longrightarrow>
      (\<exists>d docs. db = Some d \<and> mset docs = mset (todo d) \<and> outs = map serialize_todo docs)"
  proof
    assume "list_todos db = Inr outs"
    from list_todos_success [OF this] show
      "\<exists>d docs. db = Some d \<and> mset docs = mset (todo d) \<and> outs = map serialize_todo docs"
      by blast
  qed
  have created: "create_todo now new_id db payload = (Inr out, db') \<longrightarrow>
      (\<exists>d doc. db' = Some d \<and> doc \<in> set (todo d) \<and> out = serialize_todo doc)"
  proof
    assume "create_todo now new_id db payload = (Inr out, db')"
    from create_todo_success [OF this] obtain d oid doc where
      "db' = Some d" "find_doc (todo d) oid = Some doc" "out = serialize_todo doc"
      by blast
    then show "\<exists>d doc. db' = Some d \<and> doc \<in> set (todo d) \<and> out = serialize_todo doc"
      using find_doc_in_set by blast
  qed
  have updated: "update_todo now db todo_id changes = (Inr out, db') \<longrightarrow>
      (\<exists>d doc. db' = Some d \<and> doc \<in> set (todo d) \<and> out = serialize_todo doc)"
  proof
    assume "update_todo now db todo_id changes = (Inr out, db')"
    from update_todo_success [OF this] obtain d oid doc where
      "db' = Some d" "find_doc (todo d) oid = Some doc" "out = serialize_todo doc"
      by blast
    then show "\<exists>d doc. db' = Some d \<and> doc \<in> set (todo d) \<and> out = serialize_todo doc"
      using find_doc_in_set by blast
  qed
  have contract:
    "serialize_todo doc ''id'' =
       Some (VStr (case doc ''_id'' of
                     Some (VObjectId oid) \<Rightarrow> ObjectId_str oid
                   | Some v \<Rightarrow> py_str v
                   | None \<Rightarrow> ''None''))
   \<and> serialize_todo doc ''title'' = Some (case doc ''title'' of Some v \<Rightarrow> v | None \<Rightarrow> VStr [])
   \<and> serialize_todo doc ''completed'' =
       Some (VBool (case doc ''completed'' of
                      Some (VBool b) \<Rightarrow> b
                    | Some v \<Rightarrow> py_bool v
                    | None \<Rightarrow> False))
   \<and> serialize_todo doc ''created_at'' = Some (case doc ''created_at'' of Some v \<Rightarrow> v | None \<Rightarrow> VNone)
   \<and> serialize_todo doc ''updated_at'' = Some (case doc ''updated_at'' of Some v \<Rightarrow> v | None \<Rightarrow> VNone)
   \<and> dom (serialize_todo doc) = {''id'', ''title'', ''completed'', ''created_at'', ''updated_at''}"
    by (auto simp: serialize_todo_def py_get_def py_get_default_def split: option.splits pyval.splits)
  show ?thesis
    by (rule conjI [OF listed conjI [OF created conjI [OF updated contract]]])
qed

theorem returned_todos_serialized_witness:
  "(\<exists>docs. list_todos (Some milk_db) = Inr (map serialize_todo docs) \<and> mset docs = mset (todo milk_db))
   \<and> (\<exists>d doc.
        create_todo (Datetime 2024 6 1 12 0 0 0) bread_id (Some milk_db) (TodoCreate ''Buy bread'')
          = (Inr (serialize_todo doc), Some d) \<and> doc \<in> set (todo d))
   \<and> (\<exists>d doc.
        update_todo (Datetime 2024 6 1 12 0 0 0) (Some milk_db) ''0123456789abcdef01234567''
          (TodoUpdate Unset (Supplied (Some True))) = (Inr (serialize_todo doc), Some d)
        \<and> doc \<in> set (todo d))
   \<and> list_todos (Some milk_db) = Inr [serialize_todo milk]
   \<and> serialize_todo milk ''id'' = Some (VStr ''0123456789abcdef01234567'')
   \<and> serialize_todo milk ''title'' = Some (VStr ''Buy milk'')
   \<and> serialize_todo milk ''completed'' = Some (VBool False)
   \<and> serialize_todo milk ''created_at'' = Some (VDatetime (Datetime 2024 1 2 3 4 5 0))
   \<and> serialize_todo milk ''updated_at'' = Some VNone"
proof -
  let ?now = "Datetime 2024 6 1 12 0 0 0"
  let ?bread = "[''title'' \<mapsto> VStr ''Buy bread'', ''completed'' \<mapsto> VBool False,
                 ''created_at'' \<mapsto> VDatetime ?now, ''_id'' \<mapsto> VObjectId bread_id]"
  let ?done = "milk(''completed'' \<mapsto> VBool True, ''updated_at'' \<mapsto> VDatetime ?now)"
  have listed: "list_todos (Some milk_db) = Inr [serialize_todo milk]"
    by (rule list_todos_milk)
  have created: "create_todo ?now bread_id (Some milk_db) (TodoCreate ''Buy bread'')
      = (Inr (serialize_todo ?bread), Some (milk_db\<lparr>todo := [milk, ?bread]\<rparr>))"
    by (simp add: create_todo_def create_document_def new_Todo_def insert_one_def db_todo_def
        find_one_def server_def serialize_found_def milk_db_def milk_def milk_id_def bread_id_def
        ObjectId_bread [unfolded bread_id_def])
  have updated: "update_todo ?now (Some milk_db) ''0123456789abcdef01234567''
       (TodoUpdate Unset (Supplied (Some True)))
     = (Inr (serialize_todo ?done), Some (milk_db\<lparr>todo := [?done]\<rparr>))"
    by (simp add: ObjectId_milk update_todo_def update_fields_def db_todo_def update_one_def
        find_one_def server_def serialize_found_def milk_db_def milk_def)
  note inst1 = returned_todos_serialized [of "Some milk_db" "[serialize_todo milk]" ?now bread_id
      "TodoCreate ''Buy bread''" "serialize_todo ?bread" "Some (milk_db\<lparr>todo := [milk, ?bread]\<rparr>)"]
  note inst2 = returned_todos_serialized [of "Some milk_db" _ ?now _ _
      "serialize_todo ?done" "Some (milk_db\<lparr>todo := [?done]\<rparr>)"
      "''0123456789abcdef01234567''" "TodoUpdate Unset (Supplied (Some True))"]
  note c = returned_todos_serialized [where doc = milk, THEN conjunct2, THEN conjunct2, THEN conjunct2]
  from inst1 [THEN conjunct1, THEN mp, OF listed] obtain d1 docs where
    d1: "Some milk_db = Some d1" and perm: "mset docs = mset (todo d1)" and
    outs: "[serialize_todo milk] = map serialize_todo docs"
    by (elim exE conjE) (rule that; assumption)
  from d1 have "d1 = milk_db" by (simp only: option.inject)
  with perm have perm': "mset docs = mset (todo milk_db)" by (simp only:)
  have "list_todos (Some milk_db) = Inr (map serialize_todo docs)"
    by (simp only: listed outs)
  with perm' have a: "\<exists>docs. list_todos (Some milk_db) = Inr (map serialize_todo docs) \<and>
      mset docs = mset (todo milk_db)"
    by (intro exI conjI)
  from inst1 [THEN conjunct2, THEN conjunct1, THEN mp, OF created] obtain d2 doc2 where
    d2: "Some (milk_db\<lparr>todo := [milk, ?bread]\<rparr>) = Some d2" and mem2: "doc2 \<in> set (todo d2)" and
    eq2: "serialize_todo ?bread = serialize_todo doc2"
    by (elim exE conjE) (rule that; assumption)
  have "create_todo ?now bread_id (Some milk_db) (TodoCreate ''Buy bread'')
      = (Inr (serialize_todo doc2), Some d2)"
    by (simp only: created d2 eq2)
  with mem2 have b: "\<exists>d doc.
        create_todo ?now bread_id (Some milk_db) (TodoCreate ''Buy bread'')
          = (Inr (serialize_todo doc), Some d) \<and> doc \<in> set (todo d)"
    by (intro exI conjI)
  from inst2 [THEN conjunct2, THEN conjunct2, THEN conjunct1, THEN mp, OF updated] obtain d3 doc3 where
    d3: "Some (milk_db\<lparr>todo := [?done]\<rparr>) = Some d3" and mem3: "doc3 \<in> set (todo d3)" and
    eq3: "serialize_todo ?done = serialize_todo doc3"
    by (elim exE conjE) (rule that; assumption)
  have "update_todo ?now (Some milk_db) ''0123456789abcdef01234567''
          (TodoUpdate Unset (Supplied (Some True))) = (Inr (serialize_todo doc3), Some d3)"
    by (simp only: updated d3 eq3)
  with mem3 have u: "\<exists>d doc.
        update_todo ?now (Some milk_db) ''0123456789abcdef01234567''
          (TodoUpdate Unset (Supplied (Some True))) = (Inr (serialize_todo doc), Some d)
        \<and> doc \<in> set (todo d)"
    by (intro exI conjI)
  have m: "milk ''_id'' = Some (VObjectId milk_id)" "milk ''title'' = Some (VStr ''Buy milk'')"
    "milk ''completed'' = Some (VBool False)"
    "milk ''created_at'' = Some (VDatetime (Datetime 2024 1 2 3 4 5 0))"
    "milk ''updated_at'' = None"
    by (simp_all add: milk_def)
  have f1: "serialize_todo milk ''id'' = Some (VStr ''0123456789abcdef01234567'')"
    by (simp add: c [THEN conjunct1] m milk_id_def)
  have f2: "serialize_todo milk ''title'' = Some (VStr ''Buy milk'')"
    by (simp add: c [THEN conjunct2, THEN conjunct1] m)
  have f3: "serialize_todo milk ''completed'' = Some (VBool False)"
    by (simp add: c [THEN conjunct2, THEN conjunct2, THEN conjunct1] m)
  have f4: "serialize_todo milk ''created_at'' = Some (VDatetime (Datetime 2024 1 2 3 4 5 0))"
    by (simp add: c [THEN conjunct2, THEN conjunct2, THEN conjunct2, THEN conjunct1] m)
  have f5: "serialize_todo milk ''updated_at'' = Some VNone"
    by (simp add: c [THEN conjunct2, THEN conjunct2, THEN conjunct2, THEN conjunct2, THEN conjunct1] m)
  from a b u listed f1 f2 f3 f4 f5 show ?thesis
    by (intro conjI)
qed

text \<open>
  Claim C8. \<^verbatim>\<open>test_database\<close> never raises and is answered with status 200, whether there
  is no handle, a handle whose server cannot be reached, or a working one. What went wrong
  is told by the text under \<^verbatim>\<open>database\<close>. Of \<^verbatim>\<open>DATABASE_URL\<close> and \<^verbatim>\<open>DATABASE_NAME\<close> the
  response says only whether each is set (to a non-empty text, which is what the
  condition on \<^verbatim>\<open>os.getenv\<close> tests): it is the same response when every value is replaced
  by another one.
\<close>

theorem test_database_never_raises:
  "\<exists>r. test_database db env = Inr r
     \<and> get_test db env = \<lparr>status_code = 200, body = Json r\<rparr>
     \<and> backend r = check_mark @ '' Running''
     \<and> database r =
         (case db of
            None \<Rightarrow> warning_sign @ ''  Available but not initialized''
          | Some d \<Rightarrow>
              (case unreachable d of
                 None \<Rightarrow> check_mark @ '' Connected & Working''
               | Some m \<Rightarrow> warning_sign @ ''  Connected but Error: '' @ take 50 m))
     \<and> connection_status r = (case db of None \<Rightarrow> ''Not Connected'' | Some d \<Rightarrow> ''Connected'')
     \<and> collections r =
         (case db of
            None \<Rightarrow> []
          | Some d \<Rightarrow> (case unreachable d of None \<Rightarrow> take 10 (collection_names d) | Some m \<Rightarrow> []))
     \<and> database_url r =
         Some (if getenv_truthy env ''DATABASE_URL'' then check_mark @ '' Set''
               else cross_mark @ '' Not Set'')
     \<and> database_name r =
         Some (if getenv_truthy env ''DATABASE_NAME'' then check_mark @ '' Set''
               else cross_mark @ '' Not Set'')
     \<and> test_database db env =
         test_database db (\<lambda>k. if getenv_truthy env k then Some ''set'' else None)"
proof -
  have same: "getenv_truthy (\<lambda>k. if getenv_truthy env k then Some ''set'' else None) k = getenv_truthy env k"
    for k
    by (simp add: getenv_truthy_def)
  show ?thesis
  proof (cases db)
    case None
    then show ?thesis
      by (simp add: test_database_def test_database_try_def get_test_def respond_def
          is_body_allowed_for_status_code_def same)
  next
    case (Some d)
    then show ?thesis
      by (cases "unreachable d")
        (simp_all add: test_database_def test_database_try_def get_test_def respond_def
          is_body_allowed_for_status_code_def list_collection_names_def server_def same)
  qed
qed

text \<open>
  Claim C1. The claim wants a document without \<^verbatim>\<open>created_at\<close> to be listed last. The
  handler sorts by \<^verbatim>\<open>d.get("created_at")\<close>, which is \<^verbatim>\<open>None\<close> for such a document, and
  \<^verbatim>\<open>None\<close> cannot be compared: with one dated and one undated document in the collection
  the sort raises \<^verbatim>\<open>TypeError\<close> and the request is answered 500.
\<close>

theorem list_todos_absent_created_at_fails:
  "list_todos (Some mixed_db) =
     Inl (HTTPException 500
       (quoted ''<'' @ '' not supported between instances of '' @
        quoted ''datetime.datetime'' @ '' and '' @ quoted ''NoneType''))
   \<and> status_code (get_api_todos (Some mixed_db)) = 500"
  by (simp add: get_api_todos_def respond_def list_todos_def get_documents_def server_def
      list_sort_reverse_def mixed_db_def milk_def legacy_def py_get_def)

text \<open>
  Claim C6. A creation request must carry \<^verbatim>\<open>title\<close>; any string is accepted, the empty
  one too. On a store that answers, with a fresh identifier from the driver, the todo that
  is persisted has the title, \<^verbatim>\<open>completed = false\<close>, the clock's reading as
  \<^verbatim>\<open>created_at\<close>, and no \<^verbatim>\<open>updated_at\<close>; the request is answered 201 with its
  serialization.
\<close>

theorem create_todo_persists:
  assumes "unreachable d = None" and "find_doc (todo d) new_id = None" and "wf_ObjectId new_id"
  shows "TodoCreate_validate (request(''title'' \<mapsto> VStr title)) = Some (TodoCreate title)
       \<and> (request ''title'' = None \<longrightarrow> TodoCreate_validate request = None)
       \<and> (\<exists>doc d'.
            create_todo now new_id (Some d) (TodoCreate title) = (Inr (serialize_todo doc), Some d') \<and>
            fst (post_api_todos now new_id (Some d) (TodoCreate title))
              = \<lparr>status_code = 201, body = Json (serialize_todo doc)\<rparr> \<and>
            todo d' = todo d @ [doc] \<and>
            find_doc (todo d') new_id = Some doc \<and>
            doc ''_id'' = Some (VObjectId new_id) \<and>
            doc ''title'' = Some (VStr title) \<and>
            doc ''completed'' = Some (VBool False) \<and>
            doc ''created_at'' = Some (VDatetime now) \<and>
            doc ''updated_at'' = None \<and>
            dom doc = {''_id'', ''title'', ''completed'', ''created_at''})"
proof -
  let ?doc = "[''title'' \<mapsto> VStr title, ''completed'' \<mapsto> VBool False,
               ''created_at'' \<mapsto> VDatetime now, ''_id'' \<mapsto> VObjectId new_id]"
  let ?d' = "d\<lparr>todo := todo d @ [?doc],
               collection_names :=
                 (if ''todo'' \<in> set (collection_names d) then collection_names d
                  else collection_names d @ [''todo''])\<rparr>"
  have found: "find_doc (todo d @ [?doc]) new_id = Some ?doc"
    by (simp add: find_doc_append assms(2))
  have run: "create_todo now new_id (Some d) (TodoCreate title) = (Inr (serialize_todo ?doc), Some ?d')"
    using found
    by (simp add: create_todo_def create_document_def new_Todo_def insert_one_def assms
        ObjectId_str_inverse db_todo_def find_one_def server_def serialize_found_def)
  have post: "fst (post_api_todos now new_id (Some d) (TodoCreate title))
      = \<lparr>status_code = 201, body = Json (serialize_todo ?doc)\<rparr>"
    by (simp add: post_api_todos_def run respond_def is_body_allowed_for_status_code_def)
  have dom: "dom ?doc = {''_id'', ''title'', ''completed'', ''created_at''}"
    by auto
  have v: "TodoCreate_validate (request(''title'' \<mapsto> VStr title)) = Some (TodoCreate title)"
    "request ''title'' = None \<longrightarrow> TodoCreate_validate request = None"
    by (simp_all add: TodoCreate_validate_def)
  have fields: "?doc ''_id'' = Some (VObjectId new_id)" "?doc ''title'' = Some (VStr title)"
    "?doc ''completed'' = Some (VBool False)" "?doc ''created_at'' = Some (VDatetime now)"
    "?doc ''updated_at'' = None"
    by simp_all
  have td: "todo ?d' = todo d @ [?doc]" by simp
  show ?thesis
    apply (intro conjI v)
    apply (rule exI [of _ ?doc], rule exI [of _ ?d'])
    apply (intro conjI run post td fields dom)
    apply (simp only: td found)
    done
qed

theorem create_todo_persists_witness:
  "TodoCreate_validate [''title'' \<mapsto> VStr ''''] = Some (TodoCreate '''')
   \<and> TodoCreate_validate Map.empty = None
   \<and> (\<exists>doc d'.
        create_todo (Datetime 2024 6 1 12 0 0 0) bread_id (Some milk_db) (TodoCreate '''')
          = (Inr (serialize_todo doc), Some d')
        \<and> todo d' = [milk, doc]
        \<and> doc ''title'' = Some (VStr '''')
        \<and> doc ''completed'' = Some (VBool False)
        \<and> doc ''created_at'' = Some (VDatetime (Datetime 2024 6 1 12 0 0 0))
        \<and> doc ''updated_at'' = None)"
proof -
  have reach: "unreachable milk_db = None"
    by (simp add: milk_db_def)
  have fresh: "find_doc (todo milk_db) bread_id = None"
    by (simp add: milk_db_def milk_def milk_id_def bread_id_def)
  have wf: "wf_ObjectId bread_id"
    by (simp add: bread_id_def is_lower_hex_def)
  have td: "todo milk_db = [milk]"
    by (simp add: milk_db_def)
  from create_todo_persists [OF reach fresh wf, of Map.empty "''''" "Datetime 2024 6 1 12 0 0 0"]
  show ?thesis
    unfolding td by auto
qed

text \<open>
  Claim C10. What a successful \<^verbatim>\<open>create_todo\<close> returns is what reading the store again by
  the assigned identifier, the one under \<^verbatim>\<open>id\<close> in the returned todo, and serializing
  the document gives.
\<close>

theorem create_round_trip:
  assumes "create_todo now new_id db payload = (Inr out, db')"
  shows "\<exists>d oid doc.
      db' = Some d \<and>
      out ''id'' = Some (VStr (ObjectId_str oid)) \<and>
      ObjectId (ObjectId_str oid) = Inr oid \<and>
      find_one d oid = Inr (Some doc) \<and>
      serialize_found (Some doc) = Inr out"
proof -
  from create_todo_success [OF assms] obtain d0 d oid doc where
    reach: "unreachable d0 = None" and
    ins: "insert_one d0 new_id [''title'' \<mapsto> VStr (case payload of TodoCreate t \<Rightarrow> t),
            ''completed'' \<mapsto> VBool False, ''created_at'' \<mapsto> VDatetime now] = Inr (new_id, d)" and
    db': "db' = Some d" and oid: "ObjectId (ObjectId_str new_id) = Inr oid" and
    doc: "find_doc (todo d) oid = Some doc" and out: "out = serialize_todo doc"
    by auto
  from ins reach have reach': "unreachable d = None"
    by (auto simp: insert_one_def split: option.splits)
  have id: "doc ''_id'' = Some (VObjectId oid)"
    using doc by (rule find_doc_id)
  have "out ''id'' = Some (VStr (ObjectId_str oid))"
    by (simp add: out serialize_todo_def py_get_def id)
  moreover have "ObjectId (ObjectId_str oid) = Inr oid"
    using ObjectId_wf [OF oid] by (rule ObjectId_str_inverse)
  moreover have "find_one d oid = Inr (Some doc)"
    by (simp add: find_one_def server_def reach' doc)
  moreover have "serialize_found (Some doc) = Inr out"
    by (simp add: serialize_found_def out)
  ultimately show ?thesis
    using db' by blast
qed

theorem create_round_trip_witness:
  "\<exists>out d doc.
     create_todo (Datetime 2024 6 1 12 0 0 0) bread_id (Some milk_db) (TodoCreate ''Buy bread'')
       = (Inr out, Some d)
     \<and> out ''id'' = Some (VStr ''0123456789abcdef01234568'')
     \<and> out ''title'' = Some (VStr ''Buy bread'')
     \<and> find_one d bread_id = Inr (Some doc)
     \<and> serialize_found (Some doc) = Inr out"
proof -
  let ?bread = "[''title'' \<mapsto> VStr ''Buy bread'', ''completed'' \<mapsto> VBool False,
                 ''created_at'' \<mapsto> VDatetime (Datetime 2024 6 1 12 0 0 0),
                 ''_id'' \<mapsto> VObjectId bread_id]"
  let ?db = "milk_db\<lparr>todo := [milk, ?bread]\<rparr>"
  have run: "create_todo (Datetime 2024 6 1 12 0 0 0) bread_id (Some milk_db) (TodoCreate ''Buy bread'')
      = (Inr (serialize_todo ?bread), Some ?db)"
    by (simp add: create_todo_def create_document_def new_Todo_def insert_one_def db_todo_def
        find_one_def server_def serialize_found_def milk_db_def milk_def milk_id_def bread_id_def
        ObjectId_bread [unfolded bread_id_def])
  from create_round_trip [OF run] obtain oid doc where
    id: "serialize_todo ?bread ''id'' = Some (VStr (ObjectId_str oid))" and
    read: "find_one ?db oid = Inr (Some doc)" and
    same: "serialize_found (Some doc) = Inr (serialize_todo ?bread)"
    by auto
  from id have "ObjectId_str oid = ''0123456789abcdef01234568''"
    by (simp add: serialize_todo_def py_get_def bread_id_def)
  then have oid: "oid = bread_id"
    by (cases oid) (simp add: bread_id_def)
  show ?thesis
    apply (rule exI [of _ "serialize_todo ?bread"], rule exI [of _ ?db], rule exI [of _ doc])
    using run read same oid
    apply (simp add: serialize_todo_def py_get_def py_get_default_def bread_id_def)
    done
qed

end
